theory Spec2Isabelle
  imports Main
begin

section \<open>Python values, errors and NumPy shapes\<close>

text \<open>
  The module \<^verbatim>\<open>msgraph.py\<close> is Python 2 code (it hands a file opened in mode
  \<^verbatim>\<open>'rb'\<close> to \<^verbatim>\<open>csv.reader\<close> and deletes from a dict while looping over its
  \<^verbatim>\<open>.items()\<close>, which is a list there). The methods of \<^verbatim>\<open>ExcelClient\<close> modelled
  below never read \<^verbatim>\<open>self\<close>, so they are functions of their arguments.

  The arguments are dynamically typed. The values a caller can pass are modelled by
  \<open>pyval\<close>: \<^verbatim>\<open>None\<close>, booleans, integers, byte strings and lists.
\<close>

datatype pyval =
    PNone
  | PBool bool
  | PInt int
  | PStr string
  | PList "pyval list"

text \<open>
  The exceptions the module raises, by the error condition they stand for:
  \<^item> \<open>TypeMismatch\<close>: \<^verbatim>\<open>TypeError("Invalid {k} type")\<close>;
  \<^item> \<open>InvalidArgument\<close>: \<^verbatim>\<open>ValueError("Invalid data")\<close> and
    \<^verbatim>\<open>ValueError("Invalid input data")\<close>;
  \<^item> \<open>ShapeMismatch\<close>: \<^verbatim>\<open>ValueError("{k} shape and data shape must be the same")\<close> and
    \<^verbatim>\<open>ValueError("Invalid format of data. Number of columns in lines differ")\<close>;
  \<^item> \<open>IndexError\<close>: an \<^verbatim>\<open>IndexError\<close> that no handler catches.
  The message text, which names the offending key \<^verbatim>\<open>k\<close>, is not modelled.
\<close>

datatype error = TypeMismatch | InvalidArgument | ShapeMismatch | IndexError

text \<open>\<^verbatim>\<open>type(v) is str\<close>, \<^verbatim>\<open>type(v) is list\<close>, \<^verbatim>\<open>type(v) is bool\<close>.\<close>

fun is_str :: "pyval \<Rightarrow> bool" where
  "is_str (PStr s) = True"
| "is_str v = False"

fun is_list :: "pyval \<Rightarrow> bool" where
  "is_list (PList xs) = True"
| "is_list v = False"

fun is_bool :: "pyval \<Rightarrow> bool" where
  "is_bool (PBool b) = True"
| "is_bool v = False"

text \<open>
  \<^verbatim>\<open>np.shape(v)\<close> is the shape of the array NumPy builds from \<^verbatim>\<open>v\<close>. The NumPy
  releases this code was written for find it by dimension discovery: a scalar has shape
  \<^verbatim>\<open>()\<close>; a list has its length as first dimension, followed by the dimensions on
  which all its elements agree (the dimensions of the first element, cut at the first
  position where a later element differs). So a rectangular table has shape
  \<^verbatim>\<open>(rows, columns)\<close>, a table whose rows differ in length has shape \<^verbatim>\<open>(rows,)\<close>
  (an array of row objects), and the empty list has shape \<^verbatim>\<open>(0,)\<close>. The handler
  for \<^verbatim>\<open>IndexError\<close> in \<^verbatim>\<open>get_range_of_data\<close> relies on exactly this.

  The model is meant for scalars and for lists of rows. A list that holds scalars and
  lists side by side is given a shape here as well, although NumPy may refuse to build
  an array from it.
\<close>

fun common_dims :: "nat list \<Rightarrow> nat list \<Rightarrow> nat list" where
  "common_dims (a # as) (b # bs) = (if a = b then a # common_dims as bs else [])"
| "common_dims as bs = []"

fun np_shape :: "pyval \<Rightarrow> nat list" where
  "np_shape (PList xs) =
     length xs #
       (case map np_shape xs of
          [] \<Rightarrow> []
        | d # ds \<Rightarrow> fold (\<lambda>e acc. common_dims acc e) ds d)"
| "np_shape v = []"

section \<open>The range address: \<^verbatim>\<open>get_range_of_data\<close>\<close>

text \<open>
  \<^verbatim>\<open>chr(i)\<close> for \<open>i < 256\<close>, where Python raises nothing. The model calls it with
  \<open>48 \<le> i \<le> 57\<close> for a decimal digit and with \<open>64 \<le> i \<le> 89\<close> in the loop over the
  column digits (lemma \<open>xl_col_of_chars\<close>).
\<close>

definition chr :: "nat \<Rightarrow> char" where
  "chr i = char_of i"

text \<open>The decimal digits of a non-negative integer, as \<^verbatim>\<open>"{1}".format(row)\<close> writes them.\<close>

fun str :: "nat \<Rightarrow> string" where
  "str n = (if n < 10 then [chr (48 + n)] else str (n div 10) @ [chr (48 + n mod 10)])"

text \<open>
  \<^verbatim>\<open>
  degree = 26
  digits_num = 1
  while col >= degree:
    degree *= 26
    digits_num += 1
  \<close>
  The loop returns \<open>digits_num\<close>. It is entered with \<open>degree = 26\<close>, and \<open>degree\<close>
  only grows; the test \<open>0 < degree\<close> is there for the termination proof alone
  (lemma \<open>count_digits_unguarded\<close>).
\<close>

function count_digits :: "nat \<Rightarrow> nat \<Rightarrow> nat \<Rightarrow> nat" where
  "count_digits col degree digits_num =
     (if col \<ge> degree \<and> 0 < degree
      then count_digits col (degree * 26) (digits_num + 1)
      else digits_num)"
  by pat_completeness auto
termination
  by (relation "measure (\<lambda>(col, degree, digits_num). Suc col - degree)") auto

text \<open>
  \<^verbatim>\<open>
  xl_col = ''
  for i in range(digits_num, 0, -1):
    n = col // (26 ** (i - 1))
    xl_col += chr(64 + n)
    col -= n * (26 ** (i - 1))
  \<close>
  The first argument is the number of iterations left: \<open>i = Suc j\<close>, \<open>i - 1 = j\<close>.
\<close>

fun letters_loop :: "nat \<Rightarrow> nat \<Rightarrow> string \<Rightarrow> string" where
  "letters_loop 0 col xl_col = xl_col"
| "letters_loop (Suc j) col xl_col =
     (let n = col div (26 ^ j)
      in letters_loop j (col - n * (26 ^ j)) (xl_col @ [chr (64 + n)]))"

definition xl_col_of :: "nat \<Rightarrow> string" where
  "xl_col_of col = letters_loop (count_digits col 26 1) col []"

text \<open>
  \<^verbatim>\<open>np.shape(data)[0]\<close> is outside the \<^verbatim>\<open>try\<close>: on a scalar it raises an
  \<^verbatim>\<open>IndexError\<close> that nothing catches. \<^verbatim>\<open>np.shape(data)[1]\<close> is inside: a shape
  with one dimension becomes the \<^verbatim>\<open>ValueError\<close> about differing column numbers.
\<close>

definition get_range_of_data :: "pyval \<Rightarrow> error + string" where
  "get_range_of_data data =
     (if data = PNone then Inl InvalidArgument
      else case np_shape data of
          [] \<Rightarrow> Inl IndexError
        | [row] \<Rightarrow> Inl ShapeMismatch
        | row # col # rest \<Rightarrow> Inr (''A1:'' @ xl_col_of col @ str row))"

text \<open>Tables as the claims describe them.\<close>

fun row_len :: "pyval \<Rightarrow> nat" where
  "row_len (PList cells) = length cells"
| "row_len v = 0"

definition rectangular :: "nat \<Rightarrow> nat \<Rightarrow> pyval \<Rightarrow> bool" where
  "rectangular R C data =
     (case data of
        PList rows \<Rightarrow> length rows = R \<and> list_all (\<lambda>r. is_list r \<and> row_len r = C) rows
      | _ \<Rightarrow> False)"

definition ragged :: "pyval \<Rightarrow> bool" where
  "ragged data =
     (case data of
        PList rows \<Rightarrow>
          list_all is_list rows \<and>
          list_ex (\<lambda>r. list_ex (\<lambda>r'. row_len r \<noteq> row_len r') rows) rows
      | _ \<Rightarrow> False)"

section \<open>The request descriptors\<close>

text \<open>
  Every builder loops over the \<^verbatim>\<open>.items()\<close> of a dict literal. In Python 2 that is a
  list of the entries in an order the interpreter chooses. The order is a parameter of
  the model: \<open>items ks d\<close> lists the entries of the literal \<open>d\<close> (written as the
  source writes it) with the keys that occur in \<open>ks\<close> first, in the order of \<open>ks\<close>,
  and the remaining ones after them in the order of the source. Every order of the
  entries is \<open>items ks d\<close> for some \<open>ks\<close> (lemma \<open>items_every_order\<close>), and \<open>ks = []\<close>
  is the order of the source (lemma \<open>items_source_order\<close>). A statement with a free
  \<open>ks\<close> holds whatever order the interpreter takes.
\<close>

definition items :: "string list \<Rightarrow> (string \<times> 'v) list \<Rightarrow> (string \<times> 'v) list" where
  "items ks d =
     concat (map (\<lambda>k. filter (\<lambda>kv. fst kv = k) d) (remdups ks)) @
     filter (\<lambda>kv. fst kv \<notin> set ks) d"

text \<open>
  \<^verbatim>\<open>
  for [k, v] in {...}.items():
    if type(v) is not str:
      raise TypeError("Invalid {0} type".format(k))
  \<close>
\<close>

fun check_str :: "(string \<times> pyval) list \<Rightarrow> error + unit" where
  "check_str [] = Inr ()"
| "check_str ((k, v) # kvs) = (if \<not> is_str v then Inl TypeMismatch else check_str kvs)"

text \<open>
  \<^verbatim>\<open>
  for [k, v] in {...}.items():
    if v is not None:
      if type(v) is not list:
        raise TypeError("Invalid {0} type".format(k))
      if np.shape(v) != size:
        raise ValueError("{0} shape and data shape must be the same".format(k))
  \<close>
\<close>

fun check_list :: "nat list \<Rightarrow> (string \<times> pyval) list \<Rightarrow> error + unit" where
  "check_list sz [] = Inr ()"
| "check_list sz ((k, v) # kvs) =
     (if v \<noteq> PNone then
        (if \<not> is_list v then Inl TypeMismatch
         else if np_shape v \<noteq> sz then Inl ShapeMismatch
         else check_list sz kvs)
      else check_list sz kvs)"

text \<open>
  \<^verbatim>\<open>
  for [k, v] in {...}.items():
    if v is not None and type(v) is not bool:
      raise TypeError("Invalid {0} type".format(k))
  \<close>
\<close>

fun check_bool :: "(string \<times> pyval) list \<Rightarrow> error + unit" where
  "check_bool [] = Inr ()"
| "check_bool ((k, v) # kvs) =
     (if v \<noteq> PNone \<and> \<not> is_bool v then Inl TypeMismatch else check_bool kvs)"

text \<open>
  \<^verbatim>\<open>
  for [k, v] in request_body.items():
    if v is None:
      del request_body[k]
  \<close>
  The loop runs over the list of entries taken before the first deletion; every key of
  that list is still in the dict when it is deleted.
\<close>

fun del_none :: "(string \<times> pyval) list \<Rightarrow> (string \<rightharpoonup> pyval) \<Rightarrow> (string \<rightharpoonup> pyval)" where
  "del_none [] request_body = request_body"
| "del_none ((k, v) # kvs) request_body =
     del_none kvs (if v = PNone then request_body(k := None) else request_body)"

text \<open>
  A descriptor is the list \<^verbatim>\<open>[endpoint, type of request, body]\<close> a builder returns;
  the body is a dict or \<^verbatim>\<open>None\<close>.
\<close>

record descriptor =
  endpoint :: string
  verb :: string
  body :: "(string \<rightharpoonup> pyval) option"

text \<open>
  \<^verbatim>\<open>"{0}".format(v)\<close> for a \<^verbatim>\<open>str\<close> is the string itself. The builders format
  their arguments only after \<open>check_str\<close> has passed, so no other case is reached.
\<close>

fun format_arg :: "pyval \<Rightarrow> string" where
  "format_arg (PStr s) = s"
| "format_arg v = []"

text \<open>
  \<^verbatim>\<open>"/me/drive/items/{0}/workbook/worksheets/{1}/range(address='{2}')<suffix>"\<close>
  formatted with \<^verbatim>\<open>(file_id, sheetname, range)\<close>.
\<close>

definition range_path :: "pyval \<Rightarrow> pyval \<Rightarrow> pyval \<Rightarrow> string \<Rightarrow> string" where
  "range_path file_id sheetname rng suffix =
     ''/me/drive/items/'' @ format_arg file_id @ ''/workbook/worksheets/'' @
     format_arg sheetname @ ''/range(address='' @ [CHR 0x27] @ format_arg rng @
     [CHR 0x27] @ '')'' @ suffix"

text \<open>
  \<^verbatim>\<open>update_range(self, file_id, sheetname, range, data, format=None, columnHidden=None,
  formulas=None, formulasLocal=None, formulasR1C1=None, rowHidden=None)\<close>.
  An optional argument that is left out is \<^verbatim>\<open>None\<close>.
\<close>

definition update_range ::
  "string list \<Rightarrow> pyval \<Rightarrow> pyval \<Rightarrow> pyval \<Rightarrow> pyval \<Rightarrow> pyval \<Rightarrow> pyval \<Rightarrow> pyval \<Rightarrow>
   pyval \<Rightarrow> pyval \<Rightarrow> pyval \<Rightarrow> error + descriptor" where
  "update_range ks file_id sheetname rng data format columnHidden formulas formulasLocal
       formulasR1C1 rowHidden =
     (case check_str (items ks
         [(''file_id'', file_id), (''sheetname'', sheetname), (''range'', rng)]) of
        Inl e \<Rightarrow> Inl e
      | Inr u \<Rightarrow>
          if data = PNone then Inl InvalidArgument
          else
            let sz = np_shape data in
            (case check_list sz (items ks
                [(''data'', data), (''format'', format), (''formulas'', formulas),
                 (''formulasLocal'', formulasLocal), (''formulasR1C1'', formulasR1C1)]) of
               Inl e \<Rightarrow> Inl e
             | Inr u \<Rightarrow>
                 (case check_bool (items ks
                     [(''columnHidden'', columnHidden), (''rowHidden'', rowHidden)]) of
                    Inl e \<Rightarrow> Inl e
                  | Inr u \<Rightarrow>
                      let request_body =
                        [(''values'', data), (''numberFormat'', format),
                         (''columnHidden'', columnHidden), (''formulas'', formulas),
                         (''formulasLocal'', formulasLocal),
                         (''formulasR1C1'', formulasR1C1), (''rowHidden'', rowHidden)]
                      in Inr \<lparr>endpoint = range_path file_id sheetname rng [],
                              verb = ''patch'',
                              body = Some (del_none (items ks request_body)
                                             (map_of request_body))\<rparr>)))"

definition get_range :: "string list \<Rightarrow> pyval \<Rightarrow> pyval \<Rightarrow> pyval \<Rightarrow> error + descriptor" where
  "get_range ks file_id sheetname rng =
     (case check_str (items ks
         [(''file_id'', file_id), (''sheetname'', sheetname), (''range'', rng)]) of
        Inl e \<Rightarrow> Inl e
      | Inr u \<Rightarrow>
          Inr \<lparr>endpoint = range_path file_id sheetname rng [], verb = ''get'',
               body = None\<rparr>)"

text \<open>
  The next three builders have a keyword argument with a default: \<open>None\<close> for the
  last argument is a call that leaves it out, \<open>Some v\<close> a call that passes \<open>v\<close>.
\<close>

definition insert_empty_cells ::
  "string list \<Rightarrow> pyval \<Rightarrow> pyval \<Rightarrow> pyval \<Rightarrow> pyval option \<Rightarrow> error + descriptor" where
  "insert_empty_cells ks file_id sheetname rng shift_arg =
     (let shift = (case shift_arg of None \<Rightarrow> PStr ''Down'' | Some v \<Rightarrow> v) in
      case check_str (items ks
          [(''file_id'', file_id), (''sheetname'', sheetname), (''range'', rng),
           (''shift'', shift)]) of
        Inl e \<Rightarrow> Inl e
      | Inr u \<Rightarrow>
          Inr \<lparr>endpoint = range_path file_id sheetname rng ''/insert'', verb = ''post'',
               body = Some [''shift'' \<mapsto> shift]\<rparr>)"

definition clear_range ::
  "string list \<Rightarrow> pyval \<Rightarrow> pyval \<Rightarrow> pyval \<Rightarrow> pyval option \<Rightarrow> error + descriptor" where
  "clear_range ks file_id sheetname rng applyTo_arg =
     (let applyTo = (case applyTo_arg of None \<Rightarrow> PStr ''All'' | Some v \<Rightarrow> v) in
      case check_str (items ks
          [(''file_id'', file_id), (''sheetname'', sheetname), (''range'', rng),
           (''applyTo'', applyTo)]) of
        Inl e \<Rightarrow> Inl e
      | Inr u \<Rightarrow>
          Inr \<lparr>endpoint = range_path file_id sheetname rng ''/clear'', verb = ''post'',
               body = Some [''applyTo'' \<mapsto> applyTo]\<rparr>)"

definition delete_range ::
  "string list \<Rightarrow> pyval \<Rightarrow> pyval \<Rightarrow> pyval \<Rightarrow> pyval option \<Rightarrow> error + descriptor" where
  "delete_range ks file_id sheetname rng shift_arg =
     (let shift = (case shift_arg of None \<Rightarrow> PStr ''Up'' | Some v \<Rightarrow> v) in
      case check_str (items ks
          [(''file_id'', file_id), (''sheetname'', sheetname), (''range'', rng),
           (''shift'', shift)]) of
        Inl e \<Rightarrow> Inl e
      | Inr u \<Rightarrow>
          Inr \<lparr>endpoint = range_path file_id sheetname rng ''/delete'', verb = ''post'',
               body = Some [''shift'' \<mapsto> shift]\<rparr>)"

definition get_rangeFormat :: "string list \<Rightarrow> pyval \<Rightarrow> pyval \<Rightarrow> pyval \<Rightarrow> error + descriptor" where
  "get_rangeFormat ks file_id sheetname rng =
     (case check_str (items ks
         [(''file_id'', file_id), (''sheetname'', sheetname), (''range'', rng)]) of
        Inl e \<Rightarrow> Inl e
      | Inr u \<Rightarrow>
          Inr \<lparr>endpoint = range_path file_id sheetname rng ''/format'', verb = ''get'',
               body = None\<rparr>)"

section \<open>The column letters of the specification\<close>

text \<open>
  The encoding the specification names, written from its words and not from the code:
  the bijective base-26 numeral of \<open>n\<close> with the digits \<open>A\<close> (1) to \<open>Z\<close> (26) and no
  zero digit, most significant digit first. It is what \<open>xl_col_of\<close> is compared with.
\<close>

fun letters :: "nat \<Rightarrow> string" where
  "letters n =
     (if n = 0 then [] else letters ((n - 1) div 26) @ [chr (65 + (n - 1) mod 26)])"

section \<open>Facts about shapes\<close>

declare count_digits.simps [simp del]
declare str.simps [simp del]
declare letters.simps [simp del]

lemma common_dims_Cons:
  "common_dims d e = x # c \<Longrightarrow> (\<exists>d' e'. d = x # d' \<and> e = x # e')"
  by (cases d; cases e) (auto split: if_splits)

lemma fold_common_dims_Cons:
  "fold (\<lambda>e acc. common_dims acc e) ds d = x # c \<Longrightarrow>
     (\<exists>d'. d = x # d') \<and> (\<forall>e \<in> set ds. \<exists>e'. e = x # e')"
proof (induction ds arbitrary: d)
  case Nil
  then show ?case by simp
next
  case (Cons e ds)
  from Cons.prems have "fold (\<lambda>e acc. common_dims acc e) ds (common_dims d e) = x # c"
    by simp
  from Cons.IH [OF this] obtain c' where
    c: "common_dims d e = x # c'" and rest: "\<forall>e \<in> set ds. \<exists>e'. e = x # e'"
    by blast
  from common_dims_Cons [OF c] rest show ?case by auto
qed

lemma fold_common_dims_same_head:
  "\<forall>e \<in> set ds. \<exists>e'. e = x # e' \<Longrightarrow>
     \<exists>c. fold (\<lambda>e acc. common_dims acc e) ds (x # d') = x # c"
proof (induction ds arbitrary: d')
  case Nil
  then show ?case by simp
next
  case (Cons e ds)
  then obtain e' where "e = x # e'" by auto
  with Cons show ?case by simp
qed

lemma np_shape_row: "is_list r \<Longrightarrow> \<exists>rest. np_shape r = row_len r # rest"
  by (cases r) auto

lemma np_shape_rectangular:
  assumes "rectangular R C data" and "0 < R"
  shows "\<exists>rest. np_shape data = R # C # rest"
proof -
  from assms obtain r rs where data: "data = PList (r # rs)" and len: "Suc (length rs) = R"
    and rows: "\<forall>x \<in> set (r # rs). is_list x \<and> row_len x = C"
    by (cases data; cases "case data of PList rows \<Rightarrow> rows")
       (auto simp: rectangular_def list_all_iff)
  from rows np_shape_row [of r] obtain d' where r: "np_shape r = C # d'" by auto
  have "\<forall>e \<in> set (map np_shape rs). \<exists>e'. e = C # e'"
    using rows np_shape_row by fastforce
  from fold_common_dims_same_head [OF this, of d'] obtain c where
    "fold (\<lambda>e acc. common_dims acc e) (map np_shape rs) (C # d') = C # c" ..
  with data len r show ?thesis by simp
qed

lemma np_shape_ragged:
  assumes "ragged data"
  shows "\<exists>rows. data = PList rows \<and> np_shape data = [length rows]"
proof -
  from assms obtain rows where data: "data = PList rows"
    and lists: "\<forall>r \<in> set rows. is_list r"
    and diff: "\<exists>r \<in> set rows. \<exists>r' \<in> set rows. row_len r \<noteq> row_len r'"
    by (cases data) (auto simp: ragged_def list_all_iff list_ex_iff)
  from diff obtain r0 rs where rows: "rows = r0 # rs" by (cases rows) auto
  have "fold (\<lambda>e acc. common_dims acc e) (map np_shape rs) (np_shape r0) = []"
  proof (rule ccontr)
    assume "fold (\<lambda>e acc. common_dims acc e) (map np_shape rs) (np_shape r0) \<noteq> []"
    then obtain x c where
      "fold (\<lambda>e acc. common_dims acc e) (map np_shape rs) (np_shape r0) = x # c"
      by (cases "fold (\<lambda>e acc. common_dims acc e) (map np_shape rs) (np_shape r0)") auto
    from fold_common_dims_Cons [OF this]
    have heads: "\<forall>r \<in> set rows. \<exists>e'. np_shape r = x # e'"
      by (auto simp: rows)
    have "\<forall>r \<in> set rows. row_len r = x"
    proof
      fix r assume r: "r \<in> set rows"
      with lists np_shape_row [of r] heads show "row_len r = x" by fastforce
    qed
    with diff show False by auto
  qed
  with data rows show ?thesis by simp
qed

section \<open>Facts about the loops\<close>

text \<open>
  The list \<open>items ks d\<close> has the entries of \<open>d\<close>, whatever the order \<open>ks\<close>. The
  outcome of a checking loop is described by the set of the entries wherever every
  failing entry raises the same exception.
\<close>

lemma set_items: "set (items ks d) = set d"
  by (auto simp: items_def)

lemma check_str_eq:
  "check_str kvs = (if \<forall>kv \<in> set kvs. is_str (snd kv) then Inr () else Inl TypeMismatch)"
  by (induction kvs rule: check_str.induct) auto

lemma check_bool_eq:
  "check_bool kvs =
     (if \<forall>kv \<in> set kvs. snd kv = PNone \<or> is_bool (snd kv) then Inr () else Inl TypeMismatch)"
  by (induction kvs rule: check_bool.induct) auto

lemma check_list_Inr:
  "(check_list sz kvs = Inr u) =
     (\<forall>kv \<in> set kvs. snd kv = PNone \<or> (is_list (snd kv) \<and> np_shape (snd kv) = sz))"
  by (induction sz kvs rule: check_list.induct) auto

lemma check_list_Inl:
  "check_list sz kvs = Inl e \<Longrightarrow> e = TypeMismatch \<or> e = ShapeMismatch"
  by (induction sz kvs rule: check_list.induct) (auto split: if_splits)

lemma check_list_ShapeMismatch:
  "check_list sz kvs = Inl ShapeMismatch \<Longrightarrow>
     \<exists>kv \<in> set kvs. snd kv \<noteq> PNone \<and> is_list (snd kv) \<and> np_shape (snd kv) \<noteq> sz"
  by (induction sz kvs rule: check_list.induct) (auto split: if_splits)

lemma check_list_TypeMismatch:
  "check_list sz kvs = Inl TypeMismatch \<Longrightarrow>
     \<exists>kv \<in> set kvs. snd kv \<noteq> PNone \<and> \<not> is_list (snd kv)"
  by (induction sz kvs rule: check_list.induct) (auto split: if_splits)

lemma del_none_eq:
  "del_none kvs m = (\<lambda>k. if (k, PNone) \<in> set kvs then None else m k)"
  by (induction kvs m rule: del_none.induct) (auto simp: fun_eq_iff)

lemma items_map:
  assumes "\<And>kv. fst (g kv) = fst kv"
  shows "items ks (map g d) = map g (items ks d)"
proof -
  have "filter (\<lambda>kv. P (fst kv)) (map g d) = map g (filter (\<lambda>kv. P (fst kv)) d)" for P
    by (induction d) (simp_all add: assms)
  note f = this
  have "concat (map (\<lambda>k. filter (\<lambda>kv. fst kv = k) (map g d)) xs) =
        map g (concat (map (\<lambda>k. filter (\<lambda>kv. fst kv = k) d) xs))" for xs
    by (induction xs) (simp_all add: f [of "\<lambda>a. a = k" for k])
  with f [of "\<lambda>a. a \<notin> set ks"] show ?thesis
    by (simp add: items_def)
qed

text \<open>
  Every order of the entries of a dict literal is \<open>items ks d\<close> for the list \<open>ks\<close> of
  its keys in that order.
\<close>

lemma filter_key_distinct:
  "distinct (map fst d) \<Longrightarrow> (k, v) \<in> set d \<Longrightarrow> filter (\<lambda>kv. fst kv = k) d = [(k, v)]"
proof (induction d)
  case Nil
  then show ?case by simp
next
  case (Cons a d)
  show ?case
  proof (cases "fst a = k")
    case True
    with Cons.prems have "a = (k, v)"
      by (cases a) (auto simp: image_iff)
    moreover from Cons.prems True have "filter (\<lambda>kv. fst kv = k) d = []"
      by (auto simp: filter_empty_conv image_iff)
    ultimately show ?thesis by simp
  next
    case False
    with Cons show ?thesis by auto
  qed
qed

lemma concat_filter_keys:
  "distinct (map fst d) \<Longrightarrow> set q \<subseteq> set d \<Longrightarrow>
   concat (map (\<lambda>k. filter (\<lambda>kv. fst kv = k) d) (map fst q)) = q"
proof (induction q)
  case Nil
  then show ?case by simp
next
  case (Cons a q)
  obtain k v where a: "a = (k, v)" by (cases a)
  with Cons.prems have "filter (\<lambda>kv. fst kv = k) d = [(k, v)]"
    by (intro filter_key_distinct) auto
  with Cons a show ?case by simp
qed

lemma items_every_order:
  assumes "distinct (map fst d)" and "distinct p" and "set p = set d"
  shows "items (map fst p) d = p"
proof -
  from assms have dp: "distinct (map fst p)"
    by (metis distinct_map inj_on_def) 
  have e: "filter (\<lambda>kv. fst kv \<notin> set (map fst p)) d = []"
    using assms(3) by (auto simp: filter_empty_conv)
  have c: "concat (map (\<lambda>k. filter (\<lambda>kv. fst kv = k) d) (map fst p)) = p"
    using assms(3) by (intro concat_filter_keys [OF assms(1)]) simp
  show ?thesis
    unfolding items_def distinct_remdups_id [OF dp] e c by simp
qed

lemma items_source_order: "items [] d = d"
  by (simp add: items_def)

text \<open>The deletion loop gives the same dict in every order of the entries.\<close>

lemma del_none_items: "del_none (items ks d) m = del_none d m"
  by (simp add: del_none_eq set_items)

lemma del_none_request_body:
  "del_none
     [(''values'', data), (''numberFormat'', format),
      (''columnHidden'', columnHidden), (''formulas'', formulas),
      (''formulasLocal'', formulasLocal),
      (''formulasR1C1'', formulasR1C1), (''rowHidden'', rowHidden)]
     (map_of
     [(''values'', data), (''numberFormat'', format),
      (''columnHidden'', columnHidden), (''formulas'', formulas),
      (''formulasLocal'', formulasLocal),
      (''formulasR1C1'', formulasR1C1), (''rowHidden'', rowHidden)]) =
   (\<lambda>k. if k = ''values'' then (if data = PNone then None else Some data)
        else if k = ''numberFormat'' then (if format = PNone then None else Some format)
        else if k = ''columnHidden'' then
          (if columnHidden = PNone then None else Some columnHidden)
        else if k = ''formulas'' then (if formulas = PNone then None else Some formulas)
        else if k = ''formulasLocal'' then
          (if formulasLocal = PNone then None else Some formulasLocal)
        else if k = ''formulasR1C1'' then
          (if formulasR1C1 = PNone then None else Some formulasR1C1)
        else if k = ''rowHidden'' then (if rowHidden = PNone then None else Some rowHidden)
        else None)"
  by (rule ext) (simp add: del_none_eq)

lemma dom_if_key:
  "dom (\<lambda>k. if k = a then x else g k) =
     (if x = None then dom g - {a} else insert a (dom g))"
  by (auto simp: dom_def)

lemma dom_request_body:
  "data \<noteq> PNone \<Longrightarrow>
   dom (\<lambda>k. if k = ''values'' then (if data = PNone then None else Some data)
        else if k = ''numberFormat'' then (if format = PNone then None else Some format)
        else if k = ''columnHidden'' then
          (if columnHidden = PNone then None else Some columnHidden)
        else if k = ''formulas'' then (if formulas = PNone then None else Some formulas)
        else if k = ''formulasLocal'' then
          (if formulasLocal = PNone then None else Some formulasLocal)
        else if k = ''formulasR1C1'' then
          (if formulasR1C1 = PNone then None else Some formulasR1C1)
        else if k = ''rowHidden'' then (if rowHidden = PNone then None else Some rowHidden)
        else None) =
     {''values''} \<union>
       (if format = PNone then {} else {''numberFormat''}) \<union>
       (if columnHidden = PNone then {} else {''columnHidden''}) \<union>
       (if formulas = PNone then {} else {''formulas''}) \<union>
       (if formulasLocal = PNone then {} else {''formulasLocal''}) \<union>
       (if formulasR1C1 = PNone then {} else {''formulasR1C1''}) \<union>
       (if rowHidden = PNone then {} else {''rowHidden''})"
  unfolding dom_if_key by auto

section \<open>The builders, check by check\<close>

text \<open>
  \<open>update_range\<close> with its first and third loop and the deletion loop replaced by what
  they compute. Only the loop over the list-typed arguments keeps its order: it can
  raise two different exceptions, and the first offending entry decides which.
\<close>

lemma update_range_eq:
  "update_range ks file_id sheetname rng data format columnHidden formulas formulasLocal
       formulasR1C1 rowHidden =
     (if \<not> (is_str file_id \<and> is_str sheetname \<and> is_str rng) then Inl TypeMismatch
      else if data = PNone then Inl InvalidArgument
      else
        case check_list (np_shape data) (items ks
                [(''data'', data), (''format'', format), (''formulas'', formulas),
                 (''formulasLocal'', formulasLocal), (''formulasR1C1'', formulasR1C1)]) of
          Inl e \<Rightarrow> Inl e
        | Inr u \<Rightarrow>
            if \<not> ((columnHidden = PNone \<or> is_bool columnHidden) \<and>
                   (rowHidden = PNone \<or> is_bool rowHidden))
            then Inl TypeMismatch
            else Inr \<lparr>endpoint = range_path file_id sheetname rng [], verb = ''patch'',
                      body = Some (del_none
                             [(''values'', data), (''numberFormat'', format),
                              (''columnHidden'', columnHidden), (''formulas'', formulas),
                              (''formulasLocal'', formulasLocal),
                              (''formulasR1C1'', formulasR1C1), (''rowHidden'', rowHidden)]
                             (map_of
                             [(''values'', data), (''numberFormat'', format),
                              (''columnHidden'', columnHidden), (''formulas'', formulas),
                              (''formulasLocal'', formulasLocal),
                              (''formulasR1C1'', formulasR1C1), (''rowHidden'', rowHidden)]))\<rparr>)"
  unfolding update_range_def check_str_eq check_bool_eq del_none_items set_items Let_def
  by (auto split: sum.splits)

lemma check_list_data_only:
  "is_list data \<Longrightarrow>
   check_list (np_shape data) (items ks
      [(''data'', data), (''format'', PNone), (''formulas'', PNone),
       (''formulasLocal'', PNone), (''formulasR1C1'', PNone)]) = Inr ()"
  by (simp add: check_list_Inr set_items)

lemma ragged_is_list: "ragged data \<Longrightarrow> is_list data \<and> data \<noteq> PNone"
  by (cases data) (auto simp: ragged_def)

section \<open>Facts about the column letters\<close>

lemma chr_values:
  "chr 48 = CHR ''0''" "chr 49 = CHR ''1''" "chr 50 = CHR ''2''" "chr 51 = CHR ''3''"
  "chr 52 = CHR ''4''" "chr 53 = CHR ''5''" "chr 54 = CHR ''6''" "chr 55 = CHR ''7''"
  "chr 56 = CHR ''8''" "chr 57 = CHR ''9''"
  "chr 64 = CHR ''@''" "chr 65 = CHR ''A''" "chr 66 = CHR ''B''" "chr 89 = CHR ''Y''"
  "chr 90 = CHR ''Z''"
  by code_simp+

lemma letters_loop_pos:
  "0 < i \<Longrightarrow> letters_loop i col acc =
     letters_loop (i - 1) (col - col div 26 ^ (i - 1) * 26 ^ (i - 1))
       (acc @ [chr (64 + col div 26 ^ (i - 1))])"
  by (cases i) (simp_all add: Let_def)

lemma get_range_of_data_rectangular:
  assumes "rectangular R C data" and "0 < R"
  shows "get_range_of_data data = Inr (''A1:'' @ xl_col_of C @ str R)"
proof -
  from np_shape_rectangular [OF assms] obtain rest where "np_shape data = R # C # rest" ..
  moreover from assms have "data \<noteq> PNone" by (auto simp: rectangular_def)
  ultimately show ?thesis by (simp add: get_range_of_data_def)
qed

text \<open>
  What the two loops compute: \<open>count_digits\<close> returns a number of digits that holds
  the column count in base 26, and \<open>letters_loop\<close> writes the ordinary base-26 digits
  of the column count, most significant first, the digit \<open>n\<close> as \<open>chr (64 + n)\<close>.
\<close>

lemma count_digits_unguarded:
  "0 < degree \<Longrightarrow>
   count_digits col degree digits_num =
     (if col \<ge> degree then count_digits col (degree * 26) (digits_num + 1)
      else digits_num)"
  by (subst count_digits.simps) simp

lemma count_digits_bound:
  "degree = 26 ^ digits_num \<Longrightarrow> col < 26 ^ count_digits col degree digits_num"
proof (induction col degree digits_num rule: count_digits.induct)
  case (1 col degree digits_num)
  show ?case
  proof (cases "col \<ge> degree \<and> 0 < degree")
    case True
    with 1 show ?thesis
      by (subst count_digits.simps) simp
  next
    case False
    with "1.prems" show ?thesis
      by (subst count_digits.simps) simp
  qed
qed

lemma digit_of_mod:
  "j < i \<Longrightarrow> (col mod 26 ^ i) div 26 ^ j mod 26 = col div 26 ^ j mod (26::nat)"
proof -
  assume "j < i"
  then obtain k where i: "i = j + Suc k" by (auto simp: less_iff_Suc_add)
  have "(col mod 26 ^ i) div 26 ^ j = col div 26 ^ j mod 26 ^ Suc k"
    unfolding i power_add by (simp add: mod_mult2_eq)
  then show ?thesis
    by (simp add: mod_mod_cancel)
qed

lemma letters_loop_digits:
  "col < 26 ^ i \<Longrightarrow>
   letters_loop i col acc =
     acc @ map (\<lambda>j. chr (64 + col div 26 ^ j mod 26)) (rev [0..<i])"
proof (induction i arbitrary: col acc)
  case 0
  then show ?case by simp
next
  case (Suc i)
  from Suc.prems have n: "col div 26 ^ i < 26"
    by (simp add: less_mult_imp_div_less mult.commute)
  have r: "col - col div 26 ^ i * 26 ^ i = col mod 26 ^ i"
    by (simp add: minus_div_mult_eq_mod)
  have "map (\<lambda>j. chr (64 + (col mod 26 ^ i) div 26 ^ j mod 26)) (rev [0..<i]) =
        map (\<lambda>j. chr (64 + col div 26 ^ j mod 26)) (rev [0..<i])"
    by (rule map_cong) (simp_all add: digit_of_mod)
  with Suc.IH [of "col mod 26 ^ i" "acc @ [chr (64 + col div 26 ^ i)]"] n r
  show ?case by (simp add: Let_def)
qed

lemma xl_col_of_digits:
  "xl_col_of col =
     map (\<lambda>j. chr (64 + col div 26 ^ j mod 26)) (rev [0..<count_digits col 26 1])"
  unfolding xl_col_of_def
  using letters_loop_digits [OF count_digits_bound [of 26 1 col], of "[]"] by simp

text \<open>
  So \<open>chr\<close> is only called with \<open>64 \<le> i \<le> 89\<close>, a zero digit is written as \<open>@\<close>,
  and \<open>Z\<close> is never written.
\<close>

lemma chr_inj: "i < 256 \<Longrightarrow> j < 256 \<Longrightarrow> chr i = chr j \<Longrightarrow> i = j"
  by (simp add: chr_def char_of_eq_iff take_bit_nat_eq_self)

lemma xl_col_of_chars: "c \<in> set (xl_col_of col) \<Longrightarrow> \<exists>n<26. c = chr (64 + n)"
proof -
  assume "c \<in> set (xl_col_of col)"
  then obtain j where "c = chr (64 + col div 26 ^ j mod 26)"
    unfolding xl_col_of_digits by auto
  moreover have "col div 26 ^ j mod 26 < 26" by simp
  ultimately show ?thesis by blast
qed

lemma xl_col_of_no_Z: "CHR ''Z'' \<notin> set (xl_col_of col)"
proof
  assume "CHR ''Z'' \<in> set (xl_col_of col)"
  from xl_col_of_chars [OF this] obtain n where n: "n < 26" "chr 90 = chr (64 + n)"
    by (auto simp: chr_values)
  from n(1) have "64 + n < 256" by simp
  from chr_inj [OF _ this n(2)] n(1) show False by simp
qed

text \<open>
  The bijective numeral of the specification is the same string when no base-26 digit
  of the column count is zero, and a different one for every positive multiple of 26.
\<close>

lemma pred_div_mod_26:
  "n mod 26 \<noteq> 0 \<Longrightarrow> (n - 1) div 26 = n div 26 \<and> 65 + (n - 1) mod 26 = 64 + n mod (26::nat)"
proof -
  assume a: "n mod 26 \<noteq> 0"
  define q where "q = n div 26"
  define t where "t = n mod 26"
  have n: "n = 26 * q + t" by (simp add: q_def t_def)
  from a have t: "0 < t" "t < 26" by (simp_all add: t_def)
  then obtain u where u: "t = Suc u" "u < 25" by (cases t) auto
  have "n - 1 = 26 * q + u" using n u by simp
  with u show ?thesis
    unfolding q_def [symmetric] t_def [symmetric] by simp
qed

lemma rev_upt_Suc: "rev [0..<Suc m] = map Suc (rev [0..<m]) @ [0]"
proof -
  have "[0..<Suc m] = 0 # map Suc [0..<m]"
    by (simp only: upt_conv_Cons [of 0 "Suc m"] map_Suc_upt)
  then show ?thesis by (simp only: rev.simps rev_map)
qed

lemma letters_nonzero_digits:
  "n < 26 ^ m \<Longrightarrow> \<forall>j<m. n div 26 ^ j mod 26 \<noteq> 0 \<Longrightarrow>
   letters n = map (\<lambda>j. chr (64 + n div 26 ^ j mod 26)) (rev [0..<m])"
proof (induction m arbitrary: n)
  case 0
  then show ?case by (simp add: letters.simps)
next
  case (Suc m)
  from Suc.prems(2) have d0: "n mod 26 \<noteq> 0" by (auto dest: spec [of _ 0])
  then have n0: "n \<noteq> 0" by auto
  note p = pred_div_mod_26 [OF d0]
  from Suc.prems(1) have b: "n div 26 < 26 ^ m"
    by (simp add: less_mult_imp_div_less mult.commute)
  have dj: "n div 26 div 26 ^ j = n div 26 ^ Suc j" for j
    by (simp add: div_mult2_eq)
  have "\<forall>j<m. n div 26 div 26 ^ j mod 26 \<noteq> 0"
  proof (intro allI impI)
    fix j assume "j < m"
    then have "Suc j < Suc m" by simp
    with Suc.prems(2) have "n div 26 ^ Suc j mod 26 \<noteq> 0" by blast
    then show "n div 26 div 26 ^ j mod 26 \<noteq> 0" unfolding dj .
  qed
  from Suc.IH [OF b this]
  have ih: "letters (n div 26) =
      map (\<lambda>j. chr (64 + n div 26 ^ Suc j mod 26)) (rev [0..<m])"
    unfolding dj .
  have "letters n = letters ((n - 1) div 26) @ [chr (65 + (n - 1) mod 26)]"
    using n0 by (subst letters.simps) simp
  also have "\<dots> = letters (n div 26) @ [chr (64 + n mod 26)]"
    by (simp only: p)
  also have "\<dots> = map (\<lambda>j. chr (64 + n div 26 ^ j mod 26)) (rev [0..<Suc m])"
    unfolding ih rev_upt_Suc by (simp add: o_def)
  finally show ?case .
qed

lemma xl_col_of_agrees:
  "\<forall>j<count_digits col 26 1. col div 26 ^ j mod 26 \<noteq> 0 \<Longrightarrow> xl_col_of col = letters col"
  unfolding xl_col_of_digits
  by (rule letters_nonzero_digits [OF count_digits_bound, symmetric]) simp_all

lemma letters_multiple_of_26:
  "0 < n \<Longrightarrow> 26 dvd n \<Longrightarrow> CHR ''Z'' \<in> set (letters n)"
proof -
  assume "0 < n" "26 dvd n"
  then obtain k where k: "n = 26 * Suc k" by (cases "n div 26") (auto simp: dvd_def)
  have "n - 1 = 26 * k + 25" unfolding k by simp
  then have "(n - 1) mod 26 = 25" by simp
  then have "65 + (n - 1) mod 26 = 90" by simp
  moreover have "letters n = letters ((n - 1) div 26) @ [chr (65 + (n - 1) mod 26)]"
    using \<open>0 < n\<close> by (subst letters.simps) simp
  ultimately show ?thesis
    by (simp only: chr_values) simp
qed

lemma xl_col_of_multiple_of_26:
  "0 < col \<Longrightarrow> 26 dvd col \<Longrightarrow> xl_col_of col \<noteq> letters col"
  using letters_multiple_of_26 [of col] xl_col_of_no_Z [of col] by auto

lemma get_range_of_data_multiple_of_26:
  assumes "rectangular R C data" and "0 < R" and "0 < C" and "26 dvd C"
  shows "get_range_of_data data \<noteq> Inr (''A1:'' @ letters C @ str R)"
  using get_range_of_data_rectangular [OF assms(1,2)] xl_col_of_multiple_of_26 [OF assms(3,4)]
  by simp

lemma get_range_of_data_agrees:
  assumes "rectangular R C data" and "0 < R"
    and "\<forall>j<count_digits C 26 1. C div 26 ^ j mod 26 \<noteq> 0"
  shows "get_range_of_data data = Inr (''A1:'' @ letters C @ str R)"
  using get_range_of_data_rectangular [OF assms(1,2)] xl_col_of_agrees [OF assms(3)]
  by simp

section \<open>The claims about \<^verbatim>\<open>get_range_of_data\<close>\<close>

text \<open>
  Claim C1 says that a rectangular table with \<open>R \<ge> 1\<close> rows and \<open>C \<ge> 1\<close> columns gives
  \<open>''A1:'' @ letters C @ str R\<close>, with \<open>letters 26 = ''Z''\<close>. The code does not: it writes
  the ordinary base-26 digits of \<open>C\<close> (lemma \<open>xl_col_of_digits\<close>), so it agrees with the
  claim when no digit of \<open>C\<close> is zero (lemma \<open>get_range_of_data_agrees\<close>) and differs
  for every positive multiple of 26 (lemma \<open>get_range_of_data_multiple_of_26\<close>). The
  table with one row and 26 columns is rectangular, the code returns \<open>A1:A@1\<close> for it,
  and the claim asks for \<open>A1:Z1\<close>. Of the column counts the claim lists, 1, 27, 53 and
  703 come out as the claim says, and 26, 52 and 702 as \<open>A@\<close>, \<open>B@\<close> and \<open>AA@\<close>.
\<close>

theorem C1_26_columns:
  "rectangular 1 26 (PList [PList (replicate 26 (PStr ''x''))]) \<and>
   get_range_of_data (PList [PList (replicate 26 (PStr ''x''))]) = Inr ''A1:A@1'' \<and>
   ''A1:'' @ letters 26 @ str 1 = ''A1:Z1'' \<and>
   map xl_col_of [1, 26, 27, 52, 53, 702, 703] =
     [''A'', ''A@'', ''AA'', ''B@'', ''BA'', ''AA@'', ''AAA''] \<and>
   map letters [1, 26, 27, 52, 53, 702, 703] =
     [''A'', ''Z'', ''AA'', ''AZ'', ''BA'', ''ZZ'', ''AAA'']"
proof -
  have r: "rectangular 1 26 (PList [PList (replicate 26 (PStr ''x''))])"
    by (simp add: rectangular_def)
  have x: "map xl_col_of [1, 26, 27, 52, 53, 702, 703] =
     [''A'', ''A@'', ''AA'', ''B@'', ''BA'', ''AA@'', ''AAA'']"
    by (simp add: xl_col_of_def count_digits.simps letters_loop_pos chr_values)
  have l: "map letters [1, 26, 27, 52, 53, 702, 703] =
     [''A'', ''Z'', ''AA'', ''AZ'', ''BA'', ''ZZ'', ''AAA'']"
    by (simp add: letters.simps chr_values)
  have "str 1 = ''1''"
    by (simp add: str.simps chr_values)
  with x l r get_range_of_data_rectangular [OF r] show ?thesis
    by simp
qed

text \<open>
  Claim C2: for every ragged table (a list of rows, two of which differ in length),
  \<open>get_range_of_data\<close> returns no range string and fails with \<open>ShapeMismatch\<close>.
\<close>

theorem C2_ragged_fails:
  "ragged data \<Longrightarrow> get_range_of_data data = Inl ShapeMismatch"
proof -
  assume "ragged data"
  from np_shape_ragged [OF this] obtain rows where
    "data = PList rows" and "np_shape data = [length rows]" by blast
  then show ?thesis by (simp add: get_range_of_data_def)
qed

text \<open>The table \<^verbatim>\<open>[[1, 2], [3]]\<close> is ragged, and C2 applies to it.\<close>

theorem C2_ragged_fails_witness:
  "ragged (PList [PList [PInt 1, PInt 2], PList [PInt 3]]) \<and>
   get_range_of_data (PList [PList [PInt 1, PInt 2], PList [PInt 3]]) = Inl ShapeMismatch"
  using C2_ragged_fails [of "PList [PList [PInt 1, PInt 2], PList [PInt 3]]"]
  by (simp add: ragged_def)

text \<open>
  Claim C10: for the empty table \<^verbatim>\<open>[]\<close>, \<open>get_range_of_data\<close> returns no range
  address. The shape \<^verbatim>\<open>(0,)\<close> has one dimension, as the shape of a ragged table has,
  so the lookup of the column count fails and the error is the \<open>ShapeMismatch\<close> of a
  ragged table.
\<close>

theorem C10_empty_table:
  "get_range_of_data (PList []) = Inl ShapeMismatch \<and> np_shape (PList []) = [0]"
  by (simp add: get_range_of_data_def)

section \<open>The claims about the builders\<close>

text \<open>
  Claim C7: for all strings \<open>f\<close>, \<open>s\<close>, \<open>r\<close> as file id, sheet name and range,
  \<open>insert_empty_cells\<close> without a \<^verbatim>\<open>shift\<close> returns the path with the suffix
  \<^verbatim>\<open>/insert\<close>, the verb \<^verbatim>\<open>post\<close> and the body \<^verbatim>\<open>{"shift": "Down"}\<close>;
  \<open>clear_range\<close> without an \<^verbatim>\<open>applyTo\<close> returns the suffix \<^verbatim>\<open>/clear\<close>, the verb
  \<^verbatim>\<open>post\<close> and the body \<^verbatim>\<open>{"applyTo": "All"}\<close>; and
  \<^verbatim>\<open>delete_range(file_id="X", sheetname="Sheet1", range="A1:B3")\<close> returns the path
  of that sheet and range followed by \<^verbatim>\<open>/delete\<close>, the verb \<^verbatim>\<open>post\<close> and the body
  \<^verbatim>\<open>{"shift": "Up"}\<close>. This holds in every order \<open>ks\<close> of the dict entries.
\<close>

theorem C7_post_builders:
  "insert_empty_cells ks (PStr f) (PStr s) (PStr r) None =
     Inr \<lparr>endpoint = ''/me/drive/items/'' @ f @ ''/workbook/worksheets/'' @ s @
                      ''/range(address='' @ [CHR 0x27] @ r @ [CHR 0x27] @ '')/insert'',
          verb = ''post'', body = Some [''shift'' \<mapsto> PStr ''Down'']\<rparr> \<and>
   clear_range ks (PStr f) (PStr s) (PStr r) None =
     Inr \<lparr>endpoint = ''/me/drive/items/'' @ f @ ''/workbook/worksheets/'' @ s @
                      ''/range(address='' @ [CHR 0x27] @ r @ [CHR 0x27] @ '')/clear'',
          verb = ''post'', body = Some [''applyTo'' \<mapsto> PStr ''All'']\<rparr> \<and>
   delete_range ks (PStr ''X'') (PStr ''Sheet1'') (PStr ''A1:B3'') None =
     Inr \<lparr>endpoint =
            ''/me/drive/items/X/workbook/worksheets/Sheet1/range(address='A1:B3')/delete'',
          verb = ''post'', body = Some [''shift'' \<mapsto> PStr ''Up'']\<rparr>"
  by (simp add: insert_empty_cells_def clear_range_def delete_range_def check_str_eq
      set_items range_path_def)

text \<open>
  Claim C8: for all strings \<open>f\<close>, \<open>s\<close>, \<open>r\<close> as file id, sheet name and range,
  \<open>get_range\<close> and \<open>get_rangeFormat\<close> return a descriptor with the verb \<^verbatim>\<open>get\<close> and
  the body \<^verbatim>\<open>None\<close>; the path of \<open>get_range\<close> ends with the
  \<^verbatim>\<open>range(address='...')\<close> segment, that of \<open>get_rangeFormat\<close> adds \<^verbatim>\<open>/format\<close>.
\<close>

theorem C8_get_builders:
  "get_range ks (PStr f) (PStr s) (PStr r) =
     Inr \<lparr>endpoint = ''/me/drive/items/'' @ f @ ''/workbook/worksheets/'' @ s @
                      ''/range(address='' @ [CHR 0x27] @ r @ [CHR 0x27] @ '')'',
          verb = ''get'', body = None\<rparr> \<and>
   get_rangeFormat ks (PStr f) (PStr s) (PStr r) =
     Inr \<lparr>endpoint = ''/me/drive/items/'' @ f @ ''/workbook/worksheets/'' @ s @
                      ''/range(address='' @ [CHR 0x27] @ r @ [CHR 0x27] @ '')/format'',
          verb = ''get'', body = None\<rparr>"
  by (simp add: get_range_def get_rangeFormat_def check_str_eq set_items range_path_def)

text \<open>
  Claim C9: \<open>update_range\<close> never checks that \<open>data\<close> itself is rectangular. For every
  ragged \<open>data\<close>, with strings as file id, sheet name and range and every optional
  argument left out, it returns the descriptor, whose body is \<^verbatim>\<open>{"values": data}\<close>.
  And whenever a call fails with \<open>ShapeMismatch\<close>, one of the optional list arguments
  was given with a shape that differs from the shape computed for \<open>data\<close>.
\<close>

theorem C9_ragged_data_accepted:
  "(ragged data \<longrightarrow>
      update_range ks (PStr f) (PStr s) (PStr r) data PNone PNone PNone PNone PNone PNone =
        Inr \<lparr>endpoint = ''/me/drive/items/'' @ f @ ''/workbook/worksheets/'' @ s @
                         ''/range(address='' @ [CHR 0x27] @ r @ [CHR 0x27] @ '')'',
             verb = ''patch'', body = Some [''values'' \<mapsto> data]\<rparr>) \<and>
   (update_range ks' file_id sheetname rng data' format columnHidden formulas formulasLocal
        formulasR1C1 rowHidden = Inl ShapeMismatch \<longrightarrow>
      (\<exists>v \<in> {format, formulas, formulasLocal, formulasR1C1}.
          v \<noteq> PNone \<and> np_shape v \<noteq> np_shape data'))"
proof (intro conjI impI)
  assume "ragged data"
  then have d: "is_list data" "data \<noteq> PNone" by (simp_all add: ragged_is_list)
  show "update_range ks (PStr f) (PStr s) (PStr r) data PNone PNone PNone PNone PNone PNone =
        Inr \<lparr>endpoint = ''/me/drive/items/'' @ f @ ''/workbook/worksheets/'' @ s @
                         ''/range(address='' @ [CHR 0x27] @ r @ [CHR 0x27] @ '')'',
             verb = ''patch'', body = Some [''values'' \<mapsto> data]\<rparr>"
    unfolding update_range_eq check_list_data_only [OF d(1)] del_none_request_body
    using d(2) by (simp add: range_path_def fun_eq_iff)
next
  assume a: "update_range ks' file_id sheetname rng data' format columnHidden formulas
      formulasLocal formulasR1C1 rowHidden = Inl ShapeMismatch"
  then have "check_list (np_shape data') (items ks'
                [(''data'', data'), (''format'', format), (''formulas'', formulas),
                 (''formulasLocal'', formulasLocal), (''formulasR1C1'', formulasR1C1)]) =
             Inl ShapeMismatch"
    unfolding update_range_eq by (simp split: if_splits sum.splits)
  from check_list_ShapeMismatch [OF this]
  show "\<exists>v \<in> {format, formulas, formulasLocal, formulasR1C1}.
          v \<noteq> PNone \<and> np_shape v \<noteq> np_shape data'"
    by (auto simp: set_items)
qed

text \<open>
  C9 at the ragged table \<^verbatim>\<open>[[1, 2], [3]]\<close>, and at a call that fails with
  \<open>ShapeMismatch\<close>: \<^verbatim>\<open>formulas\<close> of shape \<^verbatim>\<open>(1, 1)\<close> for \<^verbatim>\<open>data\<close> of shape
  \<^verbatim>\<open>(1, 2)\<close>.
\<close>

theorem C9_ragged_data_accepted_witness:
  "ragged (PList [PList [PInt 1, PInt 2], PList [PInt 3]]) \<and>
   update_range [] (PStr ''F'') (PStr ''Sheet1'') (PStr ''A1:B2'')
       (PList [PList [PInt 1, PInt 2], PList [PInt 3]])
       PNone PNone PNone PNone PNone PNone =
     Inr \<lparr>endpoint = ''/me/drive/items/F/workbook/worksheets/Sheet1/range(address='A1:B2')'',
          verb = ''patch'',
          body = Some [''values'' \<mapsto> PList [PList [PInt 1, PInt 2], PList [PInt 3]]]\<rparr> \<and>
   update_range [] (PStr ''F'') (PStr ''Sheet1'') (PStr ''A1:B2'')
       (PList [PList [PInt 1, PInt 2]]) PNone PNone (PList [PList [PStr ''=A1'']])
       PNone PNone PNone = Inl ShapeMismatch \<and>
   np_shape (PList [PList [PStr ''=A1'']]) \<noteq> np_shape (PList [PList [PInt 1, PInt 2]])"
proof -
  have r: "ragged (PList [PList [PInt 1, PInt 2], PList [PInt 3]])"
    by (simp add: ragged_def)
  have m: "update_range [] (PStr ''F'') (PStr ''Sheet1'') (PStr ''A1:B2'')
       (PList [PList [PInt 1, PInt 2]]) PNone PNone (PList [PList [PStr ''=A1'']])
       PNone PNone PNone = Inl ShapeMismatch"
    by (simp add: update_range_eq items_def)
  from r m
    C9_ragged_data_accepted [of "PList [PList [PInt 1, PInt 2], PList [PInt 3]]"
      "[]" "''F''" "''Sheet1''" "''A1:B2''" "[]" "PStr ''F''" "PStr ''Sheet1''"
      "PStr ''A1:B2''" "PList [PList [PInt 1, PInt 2]]" PNone PNone
      "PList [PList [PStr ''=A1'']]" PNone PNone PNone]
  show ?thesis by simp
qed

text \<open>
  Claim C4: whenever \<open>update_range\<close> returns a descriptor, its body is a dict whose keys
  are exactly \<^verbatim>\<open>values\<close> and the keys of the optional arguments that were given,
  each mapped to its argument; an argument left out (\<^verbatim>\<open>None\<close>) has no key. When
  every optional argument is left out the body is \<^verbatim>\<open>{"values": data}\<close>.
\<close>

theorem C4_body_keys:
  assumes "update_range ks file_id sheetname rng data format columnHidden formulas
      formulasLocal formulasR1C1 rowHidden = Inr d"
  shows "\<exists>b. body d = Some b \<and>
     dom b = {''values''} \<union>
       (if format = PNone then {} else {''numberFormat''}) \<union>
       (if columnHidden = PNone then {} else {''columnHidden''}) \<union>
       (if formulas = PNone then {} else {''formulas''}) \<union>
       (if formulasLocal = PNone then {} else {''formulasLocal''}) \<union>
       (if formulasR1C1 = PNone then {} else {''formulasR1C1''}) \<union>
       (if rowHidden = PNone then {} else {''rowHidden''}) \<and>
     b ''values'' = Some data \<and>
     (format \<noteq> PNone \<longrightarrow> b ''numberFormat'' = Some format) \<and>
     (columnHidden \<noteq> PNone \<longrightarrow> b ''columnHidden'' = Some columnHidden) \<and>
     (formulas \<noteq> PNone \<longrightarrow> b ''formulas'' = Some formulas) \<and>
     (formulasLocal \<noteq> PNone \<longrightarrow> b ''formulasLocal'' = Some formulasLocal) \<and>
     (formulasR1C1 \<noteq> PNone \<longrightarrow> b ''formulasR1C1'' = Some formulasR1C1) \<and>
     (rowHidden \<noteq> PNone \<longrightarrow> b ''rowHidden'' = Some rowHidden) \<and>
     (format = PNone \<and> columnHidden = PNone \<and> formulas = PNone \<and>
      formulasLocal = PNone \<and> formulasR1C1 = PNone \<and> rowHidden = PNone \<longrightarrow>
        b = [''values'' \<mapsto> data])"
proof -
  let ?b = "\<lambda>k. if k = ''values'' then (if data = PNone then None else Some data)
        else if k = ''numberFormat'' then (if format = PNone then None else Some format)
        else if k = ''columnHidden'' then
          (if columnHidden = PNone then None else Some columnHidden)
        else if k = ''formulas'' then (if formulas = PNone then None else Some formulas)
        else if k = ''formulasLocal'' then
          (if formulasLocal = PNone then None else Some formulasLocal)
        else if k = ''formulasR1C1'' then
          (if formulasR1C1 = PNone then None else Some formulasR1C1)
        else if k = ''rowHidden'' then (if rowHidden = PNone then None else Some rowHidden)
        else None"
  from assms have data: "data \<noteq> PNone"
    unfolding update_range_eq by (simp split: if_splits sum.splits)
  from assms have "body d = Some (del_none
       [(''values'', data), (''numberFormat'', format),
        (''columnHidden'', columnHidden), (''formulas'', formulas),
        (''formulasLocal'', formulasLocal),
        (''formulasR1C1'', formulasR1C1), (''rowHidden'', rowHidden)]
       (map_of
       [(''values'', data), (''numberFormat'', format),
        (''columnHidden'', columnHidden), (''formulas'', formulas),
        (''formulasLocal'', formulasLocal),
        (''formulasR1C1'', formulasR1C1), (''rowHidden'', rowHidden)]))"
    unfolding update_range_eq
    by (auto simp del: del_none.simps map_of.simps split: if_split_asm sum.split_asm)
  then have b: "body d = Some ?b"
    by (simp only: del_none_request_body)
  show ?thesis
  proof (rule exI [of _ ?b], intro conjI)
    show "body d = Some ?b" by (rule b)
    show "dom ?b = {''values''} \<union>
       (if format = PNone then {} else {''numberFormat''}) \<union>
       (if columnHidden = PNone then {} else {''columnHidden''}) \<union>
       (if formulas = PNone then {} else {''formulas''}) \<union>
       (if formulasLocal = PNone then {} else {''formulasLocal''}) \<union>
       (if formulasR1C1 = PNone then {} else {''formulasR1C1''}) \<union>
       (if rowHidden = PNone then {} else {''rowHidden''})"
      by (rule dom_request_body [OF data])
    show "?b ''values'' = Some data"
      using data by simp
    show "format \<noteq> PNone \<longrightarrow> ?b ''numberFormat'' = Some format"
      by simp
    show "columnHidden \<noteq> PNone \<longrightarrow> ?b ''columnHidden'' = Some columnHidden"
      by simp
    show "formulas \<noteq> PNone \<longrightarrow> ?b ''formulas'' = Some formulas"
      by simp
    show "formulasLocal \<noteq> PNone \<longrightarrow> ?b ''formulasLocal'' = Some formulasLocal"
      by simp
    show "formulasR1C1 \<noteq> PNone \<longrightarrow> ?b ''formulasR1C1'' = Some formulasR1C1"
      by simp
    show "rowHidden \<noteq> PNone \<longrightarrow> ?b ''rowHidden'' = Some rowHidden"
      by simp
    show "format = PNone \<and> columnHidden = PNone \<and> formulas = PNone \<and>
      formulasLocal = PNone \<and> formulasR1C1 = PNone \<and> rowHidden = PNone \<longrightarrow>
        ?b = [''values'' \<mapsto> data]"
      using data by (simp add: fun_eq_iff)
  qed
qed

text \<open>
  C4 at two calls that return a descriptor: one with \<^verbatim>\<open>columnHidden=True\<close>, one with
  no optional argument.
\<close>

theorem C4_body_keys_witness:
  "update_range [] (PStr ''F'') (PStr ''Sheet1'') (PStr ''A1:B1'')
       (PList [PList [PInt 1, PInt 2]]) PNone (PBool True) PNone PNone PNone PNone =
     Inr \<lparr>endpoint = ''/me/drive/items/F/workbook/worksheets/Sheet1/range(address='A1:B1')'',
          verb = ''patch'',
          body = Some [''values'' \<mapsto> PList [PList [PInt 1, PInt 2]],
                       ''columnHidden'' \<mapsto> PBool True]\<rparr> \<and>
   dom [''values'' \<mapsto> PList [PList [PInt 1, PInt 2]], ''columnHidden'' \<mapsto> PBool True] =
     {''values'', ''columnHidden''} \<and>
   update_range [] (PStr ''F'') (PStr ''Sheet1'') (PStr ''A1:B1'')
       (PList [PList [PInt 1, PInt 2]]) PNone PNone PNone PNone PNone PNone =
     Inr \<lparr>endpoint = ''/me/drive/items/F/workbook/worksheets/Sheet1/range(address='A1:B1')'',
          verb = ''patch'',
          body = Some [''values'' \<mapsto> PList [PList [PInt 1, PInt 2]]]\<rparr>"
proof -
  have h1: "update_range [] (PStr ''F'') (PStr ''Sheet1'') (PStr ''A1:B1'')
       (PList [PList [PInt 1, PInt 2]]) PNone (PBool True) PNone PNone PNone PNone =
     Inr \<lparr>endpoint = ''/me/drive/items/F/workbook/worksheets/Sheet1/range(address='A1:B1')'',
          verb = ''patch'',
          body = Some [''values'' \<mapsto> PList [PList [PInt 1, PInt 2]],
                       ''columnHidden'' \<mapsto> PBool True]\<rparr>"
    by (simp add: update_range_eq items_def range_path_def fun_eq_iff)
  have h2: "update_range [] (PStr ''F'') (PStr ''Sheet1'') (PStr ''A1:B1'')
       (PList [PList [PInt 1, PInt 2]]) PNone PNone PNone PNone PNone PNone =
     Inr \<lparr>endpoint = ''/me/drive/items/F/workbook/worksheets/Sheet1/range(address='A1:B1')'',
          verb = ''patch'',
          body = Some [''values'' \<mapsto> PList [PList [PInt 1, PInt 2]]]\<rparr>"
    by (simp add: update_range_eq items_def range_path_def fun_eq_iff)
  from C4_body_keys [OF h1] C4_body_keys [OF h2] h1 h2 show ?thesis
    by (simp add: insert_commute)
qed

section \<open>The order of the checks in \<^verbatim>\<open>update_range\<close>\<close>

text \<open>
  \<open>update_range\<close> checks in this order: the three string arguments, \<^verbatim>\<open>data is None\<close>,
  the list-typed arguments (type, then shape, entry by entry), the two booleans. The
  first check that fails decides the exception. Claims C3, C5 and C6 each name the
  exception of one check and leave out that an earlier check can fail first.
\<close>

lemma check_list_fails:
  assumes "(k, v) \<in> set kvs" and "v \<noteq> PNone" and "np_shape v \<noteq> sz"
  shows "check_list sz kvs = Inl ShapeMismatch \<or> check_list sz kvs = Inl TypeMismatch"
proof (cases "check_list sz kvs")
  case (Inl e)
  with check_list_Inl [OF Inl] show ?thesis by auto
next
  case (Inr u)
  with assms show ?thesis by (auto simp: check_list_Inr)
qed

lemma check_list_swap:
  assumes "\<not> is_list X" and "X \<noteq> PNone" and "is_list M" and "np_shape M \<noteq> sz"
    and "\<forall>kv \<in> set kvs. snd kv = X \<or> snd kv = M \<or> snd kv = PNone \<or>
           (is_list (snd kv) \<and> np_shape (snd kv) = sz)"
    and "check_list sz kvs = Inl ShapeMismatch"
  shows "check_list sz
           (map (\<lambda>kv. (fst kv, if snd kv = X then M else if snd kv = M then X else snd kv))
              kvs) = Inl TypeMismatch"
  using assms(5,6)
proof (induction sz kvs rule: check_list.induct)
  case (1 sz)
  then show ?case by simp
next
  case (2 sz k v kvs)
  with assms(1-4) show ?case
    by (auto split: if_splits)
qed

text \<open>
  Claim C3, as amended: for \<open>update_range\<close> with strings as file id, sheet name and
  range and a list as \<open>data\<close>, when an optional list-typed argument (\<^verbatim>\<open>format\<close>,
  \<^verbatim>\<open>formulas\<close>, \<^verbatim>\<open>formulasLocal\<close>, \<^verbatim>\<open>formulasR1C1\<close>) is given with a shape
  that differs from the shape of \<open>data\<close>, no descriptor is returned: the call fails
  with \<open>ShapeMismatch\<close> or with \<open>TypeMismatch\<close>. It fails with \<open>ShapeMismatch\<close> when
  every optional list-typed argument that is given is a list.
\<close>

theorem C3_shape_mismatch:
  assumes "is_list data"
    and "\<exists>v \<in> {format, formulas, formulasLocal, formulasR1C1}.
           v \<noteq> PNone \<and> np_shape v \<noteq> np_shape data"
  shows "(update_range ks (PStr f) (PStr s) (PStr r) data format columnHidden formulas
            formulasLocal formulasR1C1 rowHidden = Inl ShapeMismatch \<or>
          update_range ks (PStr f) (PStr s) (PStr r) data format columnHidden formulas
            formulasLocal formulasR1C1 rowHidden = Inl TypeMismatch) \<and>
         ((\<forall>v \<in> {format, formulas, formulasLocal, formulasR1C1}. v = PNone \<or> is_list v) \<longrightarrow>
          update_range ks (PStr f) (PStr s) (PStr r) data format columnHidden formulas
            formulasLocal formulasR1C1 rowHidden = Inl ShapeMismatch)"
proof -
  let ?d = "[(''data'', data), (''format'', format), (''formulas'', formulas),
             (''formulasLocal'', formulasLocal), (''formulasR1C1'', formulasR1C1)]"
  let ?c = "check_list (np_shape data) (items ks ?d)"
  from assms(1) have data: "data \<noteq> PNone" by auto
  have u: "update_range ks (PStr f) (PStr s) (PStr r) data format columnHidden formulas
            formulasLocal formulasR1C1 rowHidden = Inl e" if "?c = Inl e" for e
    unfolding update_range_eq using that data by simp
  from assms(2) obtain k v where "(k, v) \<in> set (items ks ?d)" "v \<noteq> PNone"
    "np_shape v \<noteq> np_shape data"
    unfolding set_items by auto
  from check_list_fails [OF this]
  have c: "?c = Inl ShapeMismatch \<or> ?c = Inl TypeMismatch" .
  have "?c \<noteq> Inl TypeMismatch"
    if "\<forall>v \<in> {format, formulas, formulasLocal, formulasR1C1}. v = PNone \<or> is_list v"
  proof
    assume "?c = Inl TypeMismatch"
    from check_list_TypeMismatch [OF this] that assms(1) show False
      unfolding set_items by auto
  qed
  with c u show ?thesis by metis
qed

text \<open>
  C3 at \<^verbatim>\<open>data\<close> of shape \<^verbatim>\<open>(1, 2)\<close> and \<^verbatim>\<open>format\<close> of shape \<^verbatim>\<open>(1, 1)\<close>.
\<close>

theorem C3_shape_mismatch_witness:
  "is_list (PList [PList [PInt 1, PInt 2]]) \<and>
   np_shape (PList [PList [PStr ''0.00'']]) \<noteq> np_shape (PList [PList [PInt 1, PInt 2]]) \<and>
   update_range [] (PStr ''F'') (PStr ''Sheet1'') (PStr ''A1:B1'')
     (PList [PList [PInt 1, PInt 2]]) (PList [PList [PStr ''0.00'']])
     PNone PNone PNone PNone PNone = Inl ShapeMismatch"
  using C3_shape_mismatch [of "PList [PList [PInt 1, PInt 2]]"
      "PList [PList [PStr ''0.00'']]" PNone PNone PNone "[]" "''F''" "''Sheet1''"
      "''A1:B1''" PNone PNone]
  by simp

text \<open>
  Claim C3 as stated fails. The loop checks the type of an entry before its shape and
  stops at the first offending entry. Take \<^verbatim>\<open>data\<close> of shape \<^verbatim>\<open>(1, 2)\<close>, a list of
  shape \<^verbatim>\<open>(1, 1)\<close> for one of \<^verbatim>\<open>format\<close> and \<^verbatim>\<open>formulas\<close>, and a string for
  the other. In the order of the source the call with the string as \<^verbatim>\<open>format\<close> fails
  with \<open>TypeMismatch\<close>; and in no order \<open>ks\<close> of the entries do both calls fail with
  \<open>ShapeMismatch\<close>, since the entry the loop meets first is the string in one of them.
\<close>

theorem C3_counterexample:
  "update_range [] (PStr ''F'') (PStr ''Sheet1'') (PStr ''A1:B1'')
     (PList [PList [PInt 1, PInt 2]])
     (PStr ''0.00'') PNone (PList [PList [PStr ''=A1'']]) PNone PNone PNone =
     Inl TypeMismatch \<and>
   \<not> (\<exists>ks.
      update_range ks (PStr ''F'') (PStr ''Sheet1'') (PStr ''A1:B1'')
        (PList [PList [PInt 1, PInt 2]])
        (PStr ''0.00'') PNone (PList [PList [PStr ''=A1'']]) PNone PNone PNone =
        Inl ShapeMismatch \<and>
      update_range ks (PStr ''F'') (PStr ''Sheet1'') (PStr ''A1:B1'')
        (PList [PList [PInt 1, PInt 2]])
        (PList [PList [PStr ''=A1'']]) PNone (PStr ''0.00'') PNone PNone PNone =
        Inl ShapeMismatch)"
proof (rule conjI)
  show "update_range [] (PStr ''F'') (PStr ''Sheet1'') (PStr ''A1:B1'')
     (PList [PList [PInt 1, PInt 2]])
     (PStr ''0.00'') PNone (PList [PList [PStr ''=A1'']]) PNone PNone PNone =
     Inl TypeMismatch"
    by (simp add: update_range_eq items_def)
next
  let ?D = "PList [PList [PInt 1, PInt 2]]"
  let ?X = "PStr ''0.00''"
  let ?M = "PList [PList [PStr ''=A1'']]"
  let ?g = "\<lambda>kv::string \<times> pyval.
     (fst kv, if snd kv = ?X then ?M else if snd kv = ?M then ?X else snd kv)"
  let ?dA = "[(''data'', ?D), (''format'', ?X), (''formulas'', ?M),
              (''formulasLocal'', PNone), (''formulasR1C1'', PNone)]"
  let ?dB = "[(''data'', ?D), (''format'', ?M), (''formulas'', ?X),
              (''formulasLocal'', PNone), (''formulasR1C1'', PNone)]"
  {
  assume "\<exists>ks.
      update_range ks (PStr ''F'') (PStr ''Sheet1'') (PStr ''A1:B1'') ?D
        ?X PNone ?M PNone PNone PNone = Inl ShapeMismatch \<and>
      update_range ks (PStr ''F'') (PStr ''Sheet1'') (PStr ''A1:B1'') ?D
        ?M PNone ?X PNone PNone PNone = Inl ShapeMismatch"
  then obtain ks where
    a: "update_range ks (PStr ''F'') (PStr ''Sheet1'') (PStr ''A1:B1'') ?D
        ?X PNone ?M PNone PNone PNone = Inl ShapeMismatch" and
    b: "update_range ks (PStr ''F'') (PStr ''Sheet1'') (PStr ''A1:B1'') ?D
        ?M PNone ?X PNone PNone PNone = Inl ShapeMismatch"
    by blast
  from a have ca: "check_list (np_shape ?D) (items ks ?dA) = Inl ShapeMismatch"
    unfolding update_range_eq by (simp split: sum.splits)
  from b have cb: "check_list (np_shape ?D) (items ks ?dB) = Inl ShapeMismatch"
    unfolding update_range_eq by (simp split: sum.splits)
  have "?dB = map ?g ?dA" by simp
  then have "items ks ?dB = map ?g (items ks ?dA)"
    by (simp only: items_map [of ?g, OF fst_conv])
  moreover have "check_list (np_shape ?D) (map ?g (items ks ?dA)) = Inl TypeMismatch"
    by (rule check_list_swap [OF _ _ _ _ _ ca]) (simp_all add: set_items)
  ultimately have False using cb by simp
  }
  then show "\<not> (\<exists>ks.
      update_range ks (PStr ''F'') (PStr ''Sheet1'') (PStr ''A1:B1'') ?D
        ?X PNone ?M PNone PNone PNone = Inl ShapeMismatch \<and>
      update_range ks (PStr ''F'') (PStr ''Sheet1'') (PStr ''A1:B1'') ?D
        ?M PNone ?X PNone PNone PNone = Inl ShapeMismatch)"
    by blast
qed

text \<open>
  Claim C5, as amended: each of the six builders fails with \<open>TypeMismatch\<close> when its
  file id, sheet name or range is not a string, and \<open>insert_empty_cells\<close>,
  \<open>clear_range\<close> and \<open>delete_range\<close> also when the \<^verbatim>\<open>shift\<close> or \<^verbatim>\<open>applyTo\<close> they
  are given is not a string; \<open>update_range\<close> called with strings as file id, sheet
  name and range and with \<^verbatim>\<open>None\<close> as \<open>data\<close> fails with \<open>InvalidArgument\<close>.
\<close>

theorem C5_type_and_null_checks:
  "(\<not> is_str file_id \<or> \<not> is_str sheetname \<or> \<not> is_str rng \<longrightarrow>
      update_range ks file_id sheetname rng data format columnHidden formulas
        formulasLocal formulasR1C1 rowHidden = Inl TypeMismatch \<and>
      get_range ks file_id sheetname rng = Inl TypeMismatch \<and>
      insert_empty_cells ks file_id sheetname rng mode = Inl TypeMismatch \<and>
      clear_range ks file_id sheetname rng mode = Inl TypeMismatch \<and>
      delete_range ks file_id sheetname rng mode = Inl TypeMismatch \<and>
      get_rangeFormat ks file_id sheetname rng = Inl TypeMismatch) \<and>
   (\<not> is_str m \<longrightarrow>
      insert_empty_cells ks file_id sheetname rng (Some m) = Inl TypeMismatch \<and>
      clear_range ks file_id sheetname rng (Some m) = Inl TypeMismatch \<and>
      delete_range ks file_id sheetname rng (Some m) = Inl TypeMismatch) \<and>
   update_range ks (PStr f) (PStr s) (PStr r) PNone format columnHidden formulas
     formulasLocal formulasR1C1 rowHidden = Inl InvalidArgument"
  by (simp add: update_range_eq get_range_def get_rangeFormat_def insert_empty_cells_def
      clear_range_def delete_range_def check_str_eq set_items Let_def)

text \<open>
  C5 at calls with the file id \<^verbatim>\<open>5\<close>, at calls with a mode that is not a string,
  and at a call with \<^verbatim>\<open>data=None\<close>.
\<close>

theorem C5_type_and_null_checks_witness:
  "update_range [] (PInt 5) (PStr ''Sheet1'') (PStr ''A1:B3'') (PList [PList [PInt 1]])
     PNone PNone PNone PNone PNone PNone = Inl TypeMismatch \<and>
   get_range [] (PInt 5) (PStr ''Sheet1'') (PStr ''A1:B3'') = Inl TypeMismatch \<and>
   insert_empty_cells [] (PInt 5) (PStr ''Sheet1'') (PStr ''A1:B3'') None = Inl TypeMismatch \<and>
   clear_range [] (PInt 5) (PStr ''Sheet1'') (PStr ''A1:B3'') None = Inl TypeMismatch \<and>
   delete_range [] (PInt 5) (PStr ''Sheet1'') (PStr ''A1:B3'') None = Inl TypeMismatch \<and>
   get_rangeFormat [] (PInt 5) (PStr ''Sheet1'') (PStr ''A1:B3'') = Inl TypeMismatch \<and>
   insert_empty_cells [] (PStr ''F'') (PStr ''Sheet1'') (PStr ''A1:B3'') (Some (PInt 1)) =
     Inl TypeMismatch \<and>
   clear_range [] (PStr ''F'') (PStr ''Sheet1'') (PStr ''A1:B3'') (Some PNone) =
     Inl TypeMismatch \<and>
   delete_range [] (PStr ''F'') (PStr ''Sheet1'') (PStr ''A1:B3'') (Some (PBool True)) =
     Inl TypeMismatch \<and>
   update_range [] (PStr ''F'') (PStr ''Sheet1'') (PStr ''A1:B3'') PNone
     PNone PNone PNone PNone PNone PNone = Inl InvalidArgument"
  using
    C5_type_and_null_checks [of "PInt 5" "PStr ''Sheet1''" "PStr ''A1:B3''" "[]"
      "PList [PList [PInt 1]]" PNone PNone PNone PNone PNone PNone None "PInt 1"
      "''F''" "''Sheet1''" "''A1:B3''"]
    C5_type_and_null_checks [of "PStr ''F''" "PStr ''Sheet1''" "PStr ''A1:B3''" "[]"
      PNone PNone PNone PNone PNone PNone PNone None "PInt 1"]
    C5_type_and_null_checks [of "PStr ''F''" "PStr ''Sheet1''" "PStr ''A1:B3''" "[]"
      PNone PNone PNone PNone PNone PNone PNone None PNone]
    C5_type_and_null_checks [of "PStr ''F''" "PStr ''Sheet1''" "PStr ''A1:B3''" "[]"
      PNone PNone PNone PNone PNone PNone PNone None "PBool True"]
  by simp

text \<open>
  Claim C5 as stated fails in its last part: \<open>update_range\<close> called with
  \<^verbatim>\<open>data=None\<close> and the file id \<^verbatim>\<open>5\<close> fails with \<open>TypeMismatch\<close>, in every order
  of the entries, because the strings are checked before \<open>data\<close>.
\<close>

theorem C5_counterexample:
  "update_range [] (PInt 5) (PStr ''Sheet1'') (PStr ''A1:B3'') PNone
     PNone PNone PNone PNone PNone PNone = Inl TypeMismatch \<and>
   \<not> (\<exists>ks. update_range ks (PInt 5) (PStr ''Sheet1'') (PStr ''A1:B3'') PNone
          PNone PNone PNone PNone PNone PNone = Inl InvalidArgument)"
  by (simp add: update_range_eq)

text \<open>
  Claim C6, as amended: a call of \<open>update_range\<close> with a \<^verbatim>\<open>columnHidden\<close> or a
  \<^verbatim>\<open>rowHidden\<close> that is given and is not a boolean returns no descriptor. It fails
  with \<open>TypeMismatch\<close> whenever \<open>data\<close> is not \<^verbatim>\<open>None\<close> and no optional list-typed
  argument is a list of a shape other than the shape of \<open>data\<close>.
\<close>

theorem C6_bool_checks:
  "(columnHidden \<noteq> PNone \<and> \<not> is_bool columnHidden) \<or>
   (rowHidden \<noteq> PNone \<and> \<not> is_bool rowHidden) \<Longrightarrow>
   (\<exists>e. update_range ks file_id sheetname rng data format columnHidden formulas
          formulasLocal formulasR1C1 rowHidden = Inl e) \<and>
   (data \<noteq> PNone \<and>
    (\<forall>v \<in> {format, formulas, formulasLocal, formulasR1C1}.
        is_list v \<longrightarrow> np_shape v = np_shape data) \<longrightarrow>
      update_range ks file_id sheetname rng data format columnHidden formulas
        formulasLocal formulasR1C1 rowHidden = Inl TypeMismatch)"
proof -
  assume bad: "(columnHidden \<noteq> PNone \<and> \<not> is_bool columnHidden) \<or>
   (rowHidden \<noteq> PNone \<and> \<not> is_bool rowHidden)"
  let ?d = "[(''data'', data), (''format'', format), (''formulas'', formulas),
             (''formulasLocal'', formulasLocal), (''formulasR1C1'', formulasR1C1)]"
  let ?c = "check_list (np_shape data) (items ks ?d)"
  have 1: "\<exists>e. update_range ks file_id sheetname rng data format columnHidden formulas
          formulasLocal formulasR1C1 rowHidden = Inl e"
    unfolding update_range_eq using bad by (cases ?c) auto
  have 2: "update_range ks file_id sheetname rng data format columnHidden formulas
        formulasLocal formulasR1C1 rowHidden = Inl TypeMismatch"
    if "data \<noteq> PNone" and "\<forall>v \<in> {format, formulas, formulasLocal, formulasR1C1}.
        is_list v \<longrightarrow> np_shape v = np_shape data"
  proof -
    have "?c \<noteq> Inl ShapeMismatch"
    proof
      assume "?c = Inl ShapeMismatch"
      from check_list_ShapeMismatch [OF this] that(2) show False
        unfolding set_items by auto
    qed
    then have "?c = Inl TypeMismatch \<or> ?c = Inr ()"
      using check_list_Inl [of "np_shape data" "items ks ?d"] by (cases ?c) auto
    then show ?thesis
      unfolding update_range_eq using bad that(1) by auto
  qed
  from 1 2 show ?thesis by blast
qed

text \<open>
  C6 at \<^verbatim>\<open>columnHidden="yes"\<close> and at \<^verbatim>\<open>rowHidden=1\<close>.
\<close>

theorem C6_bool_checks_witness:
  "update_range [] (PStr ''F'') (PStr ''Sheet1'') (PStr ''A1:B1'')
     (PList [PList [PInt 1, PInt 2]]) PNone (PStr ''yes'') PNone PNone PNone PNone =
     Inl TypeMismatch \<and>
   update_range [] (PStr ''F'') (PStr ''Sheet1'') (PStr ''A1:B1'')
     (PList [PList [PInt 1, PInt 2]]) PNone PNone PNone PNone PNone (PInt 1) =
     Inl TypeMismatch"
  using
    C6_bool_checks [of "PStr ''yes''" PNone "[]" "PStr ''F''" "PStr ''Sheet1''"
      "PStr ''A1:B1''" "PList [PList [PInt 1, PInt 2]]" PNone PNone PNone PNone]
    C6_bool_checks [of PNone "PInt 1" "[]" "PStr ''F''" "PStr ''Sheet1''"
      "PStr ''A1:B1''" "PList [PList [PInt 1, PInt 2]]" PNone PNone PNone PNone]
  by simp

text \<open>
  Claim C6 as stated fails: with \<^verbatim>\<open>data=None\<close> and \<^verbatim>\<open>columnHidden="yes"\<close> the
  call fails with \<open>InvalidArgument\<close>, in every order of the entries, because \<open>data\<close> is
  checked before the booleans.
\<close>

theorem C6_counterexample:
  "update_range [] (PStr ''F'') (PStr ''Sheet1'') (PStr ''A1:B1'') PNone
     PNone (PStr ''yes'') PNone PNone PNone PNone = Inl InvalidArgument \<and>
   \<not> (\<exists>ks. update_range ks (PStr ''F'') (PStr ''Sheet1'') (PStr ''A1:B1'') PNone
          PNone (PStr ''yes'') PNone PNone PNone PNone = Inl TypeMismatch)"
  by (simp add: update_range_eq)

end
